theory Spec2Isabelle
  imports Complex_Main
begin

section \<open>Values of the dashboard\<close>

text \<open>
  The repository holds the same dashboard twice: \<^verbatim>\<open>src/unnamed/part_000\<close> (a Vue
  single-file component) and \<^verbatim>\<open>src/index.js\<close> (the same application as a plain
  script). Functions whose text is the same in both files are embedded once; where the
  two files differ, the function of \<^verbatim>\<open>src/index.js\<close> carries the suffix
  \<open>_index\<close>.

  A status is one of the strings \<^verbatim>\<open>'normal'\<close>, \<^verbatim>\<open>'warning'\<close>,
  \<^verbatim>\<open>'danger'\<close>; \<open>Undefined\<close> is the JavaScript value \<^verbatim>\<open>undefined\<close>, which an
  out-of-range array read or a bare \<^verbatim>\<open>return;\<close> produces. The type of a log entry
  is one of the strings \<^verbatim>\<open>'info'\<close>, \<^verbatim>\<open>'warning'\<close>, \<^verbatim>\<open>'danger'\<close>.
\<close>

datatype status = Normal | Warning | Danger | Undefined

datatype logtype = info | warning | danger

text \<open>
  A JavaScript number. Finite doubles are abstracted to reals (rounding is not
  modelled); the three special values are kept, because comparisons and
  \<^verbatim>\<open>Math.max\<close>/\<^verbatim>\<open>Math.min\<close> treat them specially.
\<close>

datatype jsnum = Fin real | NaN | PosInf | NegInf

text \<open>
  An entry of a traffic sample: a value whose \<^verbatim>\<open>typeof\<close> is \<^verbatim>\<open>'number'\<close>, or any
  other value, given with the number it converts to in arithmetic (a numeric string
  converts to its value, \<^verbatim>\<open>undefined\<close> to \<^verbatim>\<open>NaN\<close>). The argument of
  \<^verbatim>\<open>detectTrafficAnomaly\<close> is an array of such entries, or a value that is no array
  (and has no \<^verbatim>\<open>map\<close> method).
\<close>

datatype jsval = Num jsnum | NonNum jsnum

datatype jsdata = NotArray | Array "jsval list"

fun isNumber :: "jsval \<Rightarrow> bool" where
  "isNumber (Num n) = True"
| "isNumber (NonNum c) = False"

fun toNumber :: "jsval \<Rightarrow> jsnum" where
  "toNumber (Num n) = n"
| "toNumber (NonNum c) = c"

definition isNaN :: "jsval \<Rightarrow> bool" where
  "isNaN v = (toNumber v = NaN)"

text \<open>\<^verbatim>\<open>x / 100\<close>, \<^verbatim>\<open>x > c\<close> for a finite constant \<open>c\<close>, and strict equality.\<close>

fun div100 :: "jsnum \<Rightarrow> jsnum" where
  "div100 (Fin x) = Fin (x / 100)"
| "div100 NaN = NaN"
| "div100 PosInf = PosInf"
| "div100 NegInf = NegInf"

fun gt :: "jsnum \<Rightarrow> real \<Rightarrow> bool" where
  "gt (Fin x) c = (x > c)"
| "gt NaN c = False"
| "gt PosInf c = True"
| "gt NegInf c = False"

fun strictEq :: "jsnum \<Rightarrow> jsnum \<Rightarrow> bool" where
  "strictEq NaN b = False"
| "strictEq a NaN = False"
| "strictEq a b = (a = b)"

text \<open>
  \<^verbatim>\<open>Math.max(a, b)\<close> and \<^verbatim>\<open>Math.min(a, b)\<close>: \<^verbatim>\<open>NaN\<close> if either argument is;
  \<^verbatim>\<open>Math.max(...xs)\<close> is \<^verbatim>\<open>-Infinity\<close> on no arguments.
\<close>

fun Math_max2 :: "jsnum \<Rightarrow> jsnum \<Rightarrow> jsnum" where
  "Math_max2 NaN b = NaN"
| "Math_max2 a NaN = NaN"
| "Math_max2 PosInf b = PosInf"
| "Math_max2 a PosInf = PosInf"
| "Math_max2 NegInf b = b"
| "Math_max2 a NegInf = a"
| "Math_max2 (Fin x) (Fin y) = Fin (max x y)"

fun Math_min2 :: "jsnum \<Rightarrow> jsnum \<Rightarrow> jsnum" where
  "Math_min2 NaN b = NaN"
| "Math_min2 a NaN = NaN"
| "Math_min2 NegInf b = NegInf"
| "Math_min2 a NegInf = NegInf"
| "Math_min2 PosInf b = b"
| "Math_min2 a PosInf = a"
| "Math_min2 (Fin x) (Fin y) = Fin (min x y)"

definition Math_max :: "jsnum list \<Rightarrow> jsnum" where
  "Math_max xs = foldl Math_max2 NegInf xs"

text \<open>
  \<^verbatim>\<open>values.indexOf(x)\<close>: the first index whose element is strictly equal to \<open>x\<close>,
  or \<open>-1\<close>. \<^verbatim>\<open>xs[i]\<close> on an array of statuses: \<^verbatim>\<open>undefined\<close> out of range.
\<close>

fun indexOf :: "jsnum list \<Rightarrow> jsnum \<Rightarrow> int" where
  "indexOf [] x = - 1"
| "indexOf (v # vs) x =
     (if strictEq v x then 0
      else (let i = indexOf vs x in if i < 0 then - 1 else i + 1))"

definition statusAt :: "status list \<Rightarrow> int \<Rightarrow> status" where
  "statusAt xs i = (if 0 \<le> i \<and> i < int (length xs) then xs ! nat i else Undefined)"

section \<open>The log and the reactive state\<close>

text \<open>
  The texts of the log messages are Chinese string literals; each call site of
  \<^verbatim>\<open>addLog\<close> is named by a constructor, with the interpolated error message where the
  source has one. \<open>Stamped t m\<close> is the string \<^verbatim>\<open>`[${timestamp}] ${message}`\<close>.
\<close>

datatype msg =
    MsgStart                 \<comment> \<open>startMonitoring: "starting the monitoring task..."\<close>
  | MsgNotReady              \<comment> \<open>startMonitoring: "error: models are not initialised!"\<close>
  | MsgStopped               \<comment> \<open>stopMonitoring: "monitoring task stopped"\<close>
  | MsgReset                 \<comment> \<open>resetSystem of part_000: "system has been reset"\<close>
  | MsgResetCleared          \<comment> \<open>resetSystem of index.js: "system has been reset, all state cleared!"\<close>
  | MsgBadFormat             \<comment> \<open>"traffic data malformed: should be an array of length 10"\<close>
  | MsgInvalidNumber         \<comment> \<open>"traffic data contains invalid numbers"\<close>
  | MsgTensorFailed string   \<comment> \<open>"tensor operation failed: <error.message>, using the fallback detection logic"\<close>
  | MsgTrafficFailed string  \<comment> \<open>"traffic detection failed: <error.message>"\<close>
  | MsgImageFailed string    \<comment> \<open>"image recognition failed: <error.message>"\<close>
  | MsgPool status int       \<comment> \<open>monitoringTask: entry \<open>i\<close> of the message pool chosen by a traffic status\<close>

datatype formatted = Stamped nat msg

record log_entry =
  message :: formatted
  type :: logtype

text \<open>
  The refs and variables of \<^verbatim>\<open>setup\<close>. \<open>memoryUsage\<close>, \<open>accuracy\<close>,
  \<open>anomalyDetectionRate\<close> and \<open>processedDataPoints\<close> are declared in
  \<^verbatim>\<open>src/index.js\<close> only; the functions of \<^verbatim>\<open>part_000\<close> never touch them.
  \<open>trafficModel\<close>, \<open>imageModel\<close>, \<open>deviceCtx\<close> and \<open>trafficCtx\<close> say whether the
  variable is non-null.

  The rest is the runtime around the refs: \<open>timers\<close> are the delays of the pending
  \<^verbatim>\<open>setTimeout(monitoringTask, delay)\<close> callbacks, oldest first; \<open>now\<close> is what
  \<^verbatim>\<open>new Date().toLocaleTimeString()\<close> reads; \<open>random\<close> is the sequence of values
  that \<^verbatim>\<open>Math.random()\<close> returns and \<open>drawn\<close> how many have been taken.
  \<open>ticksRun\<close> is a ghost counter, not a variable of the source: the number of times
  the body of \<^verbatim>\<open>monitoringTask\<close> has run past its first guard.
\<close>

record state =
  deviceStatus :: status
  trafficStatus :: status
  modelReady :: bool
  isMonitoring :: bool
  logs :: "log_entry list"
  modelLoadProgress :: int
  selectedSpeed :: int
  memoryUsage :: real
  accuracy :: real
  anomalyDetectionRate :: real
  processedDataPoints :: int
  trafficModel :: bool
  imageModel :: bool
  deviceCtx :: bool
  trafficCtx :: bool
  timers :: "int list"
  now :: nat
  random :: "nat \<Rightarrow> real"
  drawn :: nat
  ticksRun :: nat

definition Math_random :: "state \<Rightarrow> real \<times> state" where
  "Math_random s = (random s (drawn s), s\<lparr>drawn := drawn s + 1\<rparr>)"

text \<open>\<^verbatim>\<open>Math.random()\<close> returns a value in \<open>[0, 1)\<close>.\<close>

definition unitDraws :: "state \<Rightarrow> bool" where
  "unitDraws s = (\<forall>i. 0 \<le> random s i \<and> random s i < 1)"

text \<open>
  \<^verbatim>\<open>addLog\<close> (part_000 lines 48-58, index.js lines 50-60, same text):
  \<^verbatim>\<open>unshift\<close> the entry, then \<^verbatim>\<open>pop\<close> once if the length exceeds 100.
\<close>

definition addLog :: "msg \<Rightarrow> logtype \<Rightarrow> state \<Rightarrow> state" where
  "addLog m t s =
     (let unshifted = \<lparr>message = Stamped (now s) m, type = t\<rparr> # logs s
      in s\<lparr>logs := (if length unshifted > 100 then butlast unshifted else unshifted)\<rparr>)"

section \<open>Traffic samples\<close>

text \<open>
  \<^verbatim>\<open>generateTrafficData\<close> (part_000 lines 395-418, index.js lines 363-386, same
  text). \<open>trafficLoop n\<close> is the \<^verbatim>\<open>for\<close> loop with \<open>n\<close> iterations left.
\<close>

fun trafficLoop :: "nat \<Rightarrow> real \<Rightarrow> real list \<Rightarrow> state \<Rightarrow> real list \<times> state" where
  "trafficLoop 0 base data s = (data, s)"
| "trafficLoop (Suc n) base data s =
     (let (r1, s1) = Math_random s;
          v = base + r1 * 10 - 5;
          (r2, s2) = Math_random s1
      in if r2 < 0.1 then
           (let (r3, s3) = Math_random s2;
                (r4, s4) = Math_random s3;
                severity = (if r3 < 0.5 then 25 + r4 * 20 else 50 + r4 * 40);
                v' = v + severity;
                v'' = (if v' > 100 then 100 else v')
            in trafficLoop n base (data @ [v'']) s4)
         else trafficLoop n base (data @ [v]) s2)"

definition generateTrafficData :: "state \<Rightarrow> real list \<times> state" where
  "generateTrafficData s =
     (let (r0, s0) = Math_random s;
          base = 30 + r0 * 15
      in trafficLoop 10 base [] s0)"

section \<open>The environment of one tick\<close>

text \<open>
  What the browser and TensorFlow.js do during one run of \<^verbatim>\<open>monitoringTask\<close>.

  \<open>imagePipeline\<close> is the outcome of the image pipeline of \<^verbatim>\<open>processDeviceImage\<close>:
  \<^verbatim>\<open>getImageData\<close> throws (outer \<^verbatim>\<open>catch\<close>), or a tensor operation or
  \<^verbatim>\<open>imageModel.predict\<close> throws (inner \<^verbatim>\<open>catch\<close>), or \<^verbatim>\<open>prediction.dataSync()\<close>
  yields the class scores. \<open>predict\<close> is \<^verbatim>\<open>tf.tensor3d\<close>, \<^verbatim>\<open>trafficModel.predict\<close>
  and \<^verbatim>\<open>dataSync()[0]\<close> on the normalised sample: \<open>Inl\<close> is a thrown error with its
  message, \<open>Inr\<close> the score. Errors are thrown synchronously, as TensorFlow.js does.

  The four remaining fields are what other code (event handlers, timer callbacks) does
  to the state while the tick is suspended at an \<^verbatim>\<open>await\<close>: inside
  \<^verbatim>\<open>processDeviceImage\<close>, at \<^verbatim>\<open>await processDeviceImage()\<close>, inside
  \<^verbatim>\<open>detectTrafficAnomaly\<close> and at \<^verbatim>\<open>await detectTrafficAnomaly(...)\<close>. The
  identity means that nothing runs in between. The canvas drawing of
  \<^verbatim>\<open>drawDeviceImage\<close> and \<^verbatim>\<open>drawTrafficChart\<close> is not modelled.
\<close>

datatype image_outcome =
    ImageDataError string
  | TensorError string
  | Values "jsnum list"

record env =
  imagePipeline :: image_outcome
  predict :: "jsnum list \<Rightarrow> string + jsnum"
  duringImagePredict :: "state \<Rightarrow> state"
  duringProcessDeviceImage :: "state \<Rightarrow> state"
  duringTrafficPredict :: "state \<Rightarrow> state"
  duringDetectTrafficAnomaly :: "state \<Rightarrow> state"

section \<open>The classifiers of part_000\<close>

text \<open>
  The three-way threshold that both paths of \<^verbatim>\<open>detectTrafficAnomaly\<close> end in:
  assign \<^verbatim>\<open>trafficStatus.value\<close> and return the same status.
\<close>

definition threshold :: "jsnum \<Rightarrow> real \<Rightarrow> real \<Rightarrow> state \<Rightarrow> status \<times> state" where
  "threshold x hi lo s =
     (if gt x hi then (Danger, s\<lparr>trafficStatus := Danger\<rparr>)
      else if gt x lo then (Warning, s\<lparr>trafficStatus := Warning\<rparr>)
      else (Normal, s\<lparr>trafficStatus := Normal\<rparr>))"

text \<open>
  \<^verbatim>\<open>detectTrafficAnomaly\<close> of part_000 (lines 425-488). Nothing in the inner
  \<^verbatim>\<open>catch\<close> block or in the two validity checks can throw, so the outer
  \<^verbatim>\<open>catch\<close> (lines 484-487) has no branch here.
\<close>

definition detectTrafficAnomaly :: "env \<Rightarrow> jsdata \<Rightarrow> state \<Rightarrow> status \<times> state" where
  "detectTrafficAnomaly e data s =
     (if \<not> trafficModel s \<or> \<not> modelReady s then (Normal, s)
      else case data of
        NotArray \<Rightarrow> (Normal, addLog MsgBadFormat warning s)
      | Array xs \<Rightarrow>
          if length xs \<noteq> 10 then (Normal, addLog MsgBadFormat warning s)
          else if list_ex (\<lambda>v. \<not> isNumber v \<or> isNaN v) xs
          then (Normal, addLog MsgInvalidNumber warning s)
          else (case predict e (map (\<lambda>v. div100 (toNumber v)) xs) of
                  Inr score \<Rightarrow>
                    (let s1 = duringTrafficPredict e s;
                         clampedValue = Math_max2 (Fin 0) (Math_min2 (Fin 1) score)
                     in threshold clampedValue 0.6 0.4 s1)
                | Inl m \<Rightarrow>
                    (let s1 = addLog (MsgTensorFailed m) warning s;
                         maxValue = Math_max (map toNumber xs)
                     in threshold maxValue 85 70 s1)))"

text \<open>\<^verbatim>\<open>processDeviceImage\<close> of part_000 (lines 494-555).\<close>

definition processDeviceImage :: "env \<Rightarrow> state \<Rightarrow> status \<times> state" where
  "processDeviceImage e s =
     (if \<not> imageModel s \<or> \<not> deviceCtx s \<or> \<not> modelReady s then (Normal, s)
      else case imagePipeline e of
        ImageDataError m \<Rightarrow> (Normal, addLog (MsgImageFailed m) warning s)
      | Values vs \<Rightarrow>
          (let s1 = duringImagePredict e s;
               predictedStatusIndex = indexOf vs (Math_max vs);
               st = statusAt [Normal, Warning, Danger] predictedStatusIndex
           in (st, s1\<lparr>deviceStatus := st\<rparr>))
      | TensorError m \<Rightarrow>
          (let s1 = addLog (MsgTensorFailed m) warning s;
               currentStatus = deviceStatus s1;
               (r1, s2) = Math_random s1
           in if r1 < 0.1 then
                (let otherStatuses = filter (\<lambda>x. x \<noteq> currentStatus) [Normal, Warning, Danger];
                     (r2, s3) = Math_random s2;
                     nextStatus = statusAt otherStatuses \<lfloor>r2 * real (length otherStatuses)\<rfloor>
                 in (nextStatus, s3\<lparr>deviceStatus := nextStatus\<rparr>))
              else (currentStatus, s2\<lparr>deviceStatus := currentStatus\<rparr>)))"

section \<open>The monitoring scheduler of part_000\<close>

text \<open>
  \<^verbatim>\<open>monitoringTask\<close> of part_000 (lines 560-606), in four parts: the guard of line
  561 (in \<open>monitoringTask\<close>), the two classifications (\<open>tickBody\<close>), the random log
  entry of lines 573-600 (\<open>randomLog\<close>) and the rescheduling check of lines 603-605
  (\<open>reschedule\<close>). The block of the random log entry has the same text in index.js
  (lines 488-515).
\<close>

definition logType :: "status \<Rightarrow> logtype" where
  "logType st = (if st = Normal then info else if st = Warning then warning else danger)"

definition randomLog :: "status \<Rightarrow> state \<Rightarrow> state" where
  "randomLog trafficStatusResult s =
     (let (r1, s1) = Math_random s
      in if r1 < 0.2 then
           (let msgType = logType trafficStatusResult;
                (r2, s2) = Math_random s1
            in addLog (MsgPool trafficStatusResult \<lfloor>r2 * 3\<rfloor>) msgType s2)
         else s1)"

definition tickBody :: "env \<Rightarrow> state \<Rightarrow> state" where
  "tickBody e s =
     (let (imgStatus, s1) = processDeviceImage e s;
          s2 = duringProcessDeviceImage e s1;
          (trafficData, s3) = generateTrafficData s2;
          (trafficStatusResult, s4) =
             detectTrafficAnomaly e (Array (map (\<lambda>v. Num (Fin v)) trafficData)) s3;
          s5 = duringDetectTrafficAnomaly e s4
      in randomLog trafficStatusResult s5)"

definition reschedule :: "state \<Rightarrow> state" where
  "reschedule s =
     (if isMonitoring s then s\<lparr>timers := timers s @ [selectedSpeed s]\<rparr> else s)"

definition monitoringTask :: "env \<Rightarrow> state \<Rightarrow> state" where
  "monitoringTask e s =
     (if \<not> isMonitoring s then s
      else reschedule (tickBody e (s\<lparr>ticksRun := ticksRun s + 1\<rparr>)))"


definition stopMonitoring :: "state \<Rightarrow> state" where
  "stopMonitoring s =
     (if isMonitoring s then addLog MsgStopped info (s\<lparr>isMonitoring := False\<rparr>) else s)"

text \<open>
  \<^verbatim>\<open>resetSystem\<close> of part_000 (lines 634-662). Disposing a model leaves the variable
  null; clearing the canvases changes nothing that is modelled.
\<close>

definition resetSystem :: "state \<Rightarrow> state" where
  "resetSystem s =
     (let s1 = stopMonitoring s;
          s2 = s1\<lparr>deviceStatus := Normal, trafficStatus := Normal, modelReady := False,
                  logs := [], modelLoadProgress := 0, selectedSpeed := 2000\<rparr>;
          s3 = s2\<lparr>trafficModel := False, imageModel := False\<rparr>
      in addLog MsgReset info s3)"

section \<open>The same operations in index.js\<close>

text \<open>
  \<^verbatim>\<open>detectTrafficAnomaly\<close> of index.js (lines 389-418): no validity check, no
  clamp, and a single \<^verbatim>\<open>catch\<close> that logs and returns \<^verbatim>\<open>'normal'\<close>. On a value
  that is no array \<^verbatim>\<open>data.map\<close> throws inside the \<^verbatim>\<open>try\<close>; the text of that
  error depends on the browser.
\<close>

definition detectTrafficAnomaly_index :: "env \<Rightarrow> jsdata \<Rightarrow> state \<Rightarrow> status \<times> state" where
  "detectTrafficAnomaly_index e data s =
     (if \<not> trafficModel s \<or> \<not> modelReady s then (Undefined, s)
      else case data of
        NotArray \<Rightarrow> (Normal, addLog (MsgTrafficFailed ''data.map is not a function'') warning s)
      | Array xs \<Rightarrow>
          (case predict e (map (\<lambda>v. div100 (toNumber v)) xs) of
             Inr score \<Rightarrow> threshold score 0.6 0.4 (duringTrafficPredict e s)
           | Inl m \<Rightarrow> (Normal, addLog (MsgTrafficFailed m) warning s)))"

text \<open>\<^verbatim>\<open>processDeviceImage\<close> of index.js (lines 421-461): one \<^verbatim>\<open>catch\<close> for every failure.\<close>

definition processDeviceImage_index :: "env \<Rightarrow> state \<Rightarrow> status \<times> state" where
  "processDeviceImage_index e s =
     (if \<not> imageModel s \<or> \<not> deviceCtx s \<or> \<not> modelReady s then (Undefined, s)
      else case imagePipeline e of
        Values vs \<Rightarrow>
          (let s1 = duringImagePredict e s;
               predictedStatusIndex = indexOf vs (Math_max vs);
               st = statusAt [Normal, Warning, Danger] predictedStatusIndex
           in (st, s1\<lparr>deviceStatus := st\<rparr>))
      | ImageDataError m \<Rightarrow> (Normal, addLog (MsgImageFailed m) warning s)
      | TensorError m \<Rightarrow> (Normal, addLog (MsgImageFailed m) warning s))"

text \<open>
  \<^verbatim>\<open>monitoringTask\<close> of index.js (lines 464-521), with the statistics of lines
  478-485 as \<open>updateStatistics\<close>. \<open>memoryUsage\<close> holds the number that the string
  \<^verbatim>\<open>(Math.random() * 2 + 8).toFixed(1)\<close> denotes.
\<close>

definition toFixed1 :: "real \<Rightarrow> real" where
  "toFixed1 x = real_of_int (round (x * 10)) / 10"

definition updateStatistics :: "state \<Rightarrow> state" where
  "updateStatistics s =
     (let (r0, s1) = Math_random s;
          s2 = s1\<lparr>memoryUsage := toFixed1 (r0 * 2 + 8)\<rparr>
      in if processedDataPoints s2 mod 50 = 0 then
           (let (ra, sa) = Math_random s2;
                sa' = sa\<lparr>accuracy := max 85 (min 99 (accuracy sa + (ra * 2 - 1)))\<rparr>;
                (rb, sb) = Math_random sa'
            in sb\<lparr>anomalyDetectionRate :=
                     max 85 (min 97 (anomalyDetectionRate sb + (rb * 2 - 1)))\<rparr>)
         else s2)"

definition tickBody_index :: "env \<Rightarrow> state \<Rightarrow> state" where
  "tickBody_index e s =
     (let s0 = s\<lparr>processedDataPoints := processedDataPoints s + 1\<rparr>;
          (imgStatus, s1) = processDeviceImage_index e s0;
          s2 = duringProcessDeviceImage e s1;
          (trafficData, s3) = generateTrafficData s2;
          (trafficStatusResult, s4) =
             detectTrafficAnomaly_index e (Array (map (\<lambda>v. Num (Fin v)) trafficData)) s3;
          s5 = duringDetectTrafficAnomaly e s4;
          s6 = updateStatistics s5
      in randomLog trafficStatusResult s6)"

definition monitoringTask_index :: "env \<Rightarrow> state \<Rightarrow> state" where
  "monitoringTask_index e s =
     (if \<not> isMonitoring s then s
      else reschedule (tickBody_index e (s\<lparr>ticksRun := ticksRun s + 1\<rparr>)))"


text \<open>\<^verbatim>\<open>resetSystem\<close> of index.js (lines 543-575); \<open>selectedSpeed\<close> is not assigned.\<close>

definition resetSystem_index :: "state \<Rightarrow> state" where
  "resetSystem_index s =
     (let s1 = stopMonitoring s;
          s2 = s1\<lparr>modelReady := False, deviceStatus := Normal, trafficStatus := Normal,
                  processedDataPoints := 0, modelLoadProgress := 0, logs := [],
                  memoryUsage := 0, accuracy := 92, anomalyDetectionRate := 88\<rparr>;
          s3 = s2\<lparr>trafficModel := False, imageModel := False\<rparr>
      in addLog MsgResetCleared info s3)"

section \<open>Predicates of the specification\<close>

text \<open>
  A sample as the specification wants it (an array of exactly 10 finite numbers), and a
  sample as the two checks of \<^verbatim>\<open>detectTrafficAnomaly\<close> (part_000 lines 430-439)
  accept it (an array of length 10 whose entries are numbers other than \<^verbatim>\<open>NaN\<close>),
  with the message that the failing check logs.
\<close>

fun isFiniteNumber :: "jsval \<Rightarrow> bool" where
  "isFiniteNumber (Num (Fin x)) = True"
| "isFiniteNumber v = False"

definition wellFormed :: "jsdata \<Rightarrow> bool" where
  "wellFormed data =
     (case data of NotArray \<Rightarrow> False
      | Array xs \<Rightarrow> length xs = 10 \<and> list_all isFiniteNumber xs)"

definition passesCheck :: "jsdata \<Rightarrow> bool" where
  "passesCheck data =
     (case data of NotArray \<Rightarrow> False
      | Array xs \<Rightarrow> length xs = 10 \<and> list_all (\<lambda>v. isNumber v \<and> \<not> isNaN v) xs)"


text \<open>The array of a list of finite readings.\<close>

definition sampleOf :: "real list \<Rightarrow> jsdata" where
  "sampleOf rs = Array (map (\<lambda>x. Num (Fin x)) rs)"

text \<open>
  The thresholds in the words of the specification: on a score (Danger above \<open>hi\<close>,
  Warning above \<open>lo\<close>, Normal otherwise), and the heuristic on the maximum of a sample.
\<close>

definition statusOver :: "jsnum \<Rightarrow> real \<Rightarrow> real \<Rightarrow> status" where
  "statusOver x hi lo = (if gt x hi then Danger else if gt x lo then Warning else Normal)"

definition heuristic :: "real \<Rightarrow> status" where
  "heuristic mx = (if mx > 85 then Danger else if mx > 70 then Warning else Normal)"



text \<open>
  The fields that decide scheduling, and the code that may run while a tick is
  suspended: \<open>keepsScheduler h\<close> says that \<open>h\<close> neither starts nor stops monitoring,
  runs no tick, sets no timer and does not change the speed; an environment is
  \<open>quiet\<close> when that holds at all four awaits. In \<open>stopsAtLastAwait e\<close> the code
  running at the last await (\<^verbatim>\<open>await detectTrafficAnomaly(...)\<close>) ends with monitoring
  off and sets no timer, as a call of \<^verbatim>\<open>stopMonitoring\<close> does.
\<close>

definition sched :: "state \<Rightarrow> bool \<times> nat \<times> int list \<times> int" where
  "sched s = (isMonitoring s, ticksRun s, timers s, selectedSpeed s)"

definition keepsScheduler :: "(state \<Rightarrow> state) \<Rightarrow> bool" where
  "keepsScheduler h =
     (\<forall>s. isMonitoring (h s) = isMonitoring s \<and> ticksRun (h s) = ticksRun s \<and>
          timers (h s) = timers s \<and> selectedSpeed (h s) = selectedSpeed s)"

definition quiet :: "env \<Rightarrow> bool" where
  "quiet e =
     (keepsScheduler (duringImagePredict e) \<and> keepsScheduler (duringProcessDeviceImage e) \<and>
      keepsScheduler (duringTrafficPredict e) \<and> keepsScheduler (duringDetectTrafficAnomaly e))"

definition stopsAtLastAwait :: "env \<Rightarrow> bool" where
  "stopsAtLastAwait e =
     (keepsScheduler (duringImagePredict e) \<and> keepsScheduler (duringProcessDeviceImage e) \<and>
      keepsScheduler (duringTrafficPredict e) \<and>
      (\<forall>s. \<not> isMonitoring (duringDetectTrafficAnomaly e s) \<and>
           timers (duringDetectTrafficAnomaly e s) = timers s))"

section \<open>Concrete states and environments\<close>

text \<open>
  A state after a successful \<^verbatim>\<open>initModels\<close>, before monitoring starts, in which
  every \<^verbatim>\<open>Math.random()\<close> returns \<open>1/2\<close>; the same state with monitoring on, with
  a full log, before the models are loaded, and with device status Danger and every
  \<^verbatim>\<open>Math.random()\<close> returning 0.
\<close>

definition readyState :: state where
  "readyState =
     \<lparr>deviceStatus = Normal, trafficStatus = Normal, modelReady = True,
      isMonitoring = False, logs = [], modelLoadProgress = 100, selectedSpeed = 3000,
      memoryUsage = 0, accuracy = 92, anomalyDetectionRate = 88, processedDataPoints = 0,
      trafficModel = True, imageModel = True, deviceCtx = True, trafficCtx = True,
      timers = [], now = 7, random = (\<lambda>i. 1 / 2), drawn = 0, ticksRun = 0\<rparr>"

definition runningState :: state where
  "runningState = readyState\<lparr>isMonitoring := True\<rparr>"

definition fullLogState :: state where
  "fullLogState =
     readyState\<lparr>logs := replicate 100 \<lparr>message = Stamped 1 MsgStart, type = info\<rparr>\<rparr>"



text \<open>
  An environment in which both models answer (traffic score \<open>1/2\<close>) and nothing
  interrupts the tick; one in which both tensor pipelines throw; one in which the
  traffic model answers \<^verbatim>\<open>NaN\<close>; and one in which \<^verbatim>\<open>stopMonitoring\<close> is called
  while the tick awaits the traffic classifier.
\<close>

definition calmEnv :: env where
  "calmEnv =
     \<lparr>imagePipeline = Values [Fin (1 / 5), Fin (7 / 10), Fin (1 / 10)],
      predict = (\<lambda>xs. Inr (Fin (1 / 2))),
      duringImagePredict = (\<lambda>s. s), duringProcessDeviceImage = (\<lambda>s. s),
      duringTrafficPredict = (\<lambda>s. s), duringDetectTrafficAnomaly = (\<lambda>s. s)\<rparr>"

definition failingEnv :: env where
  "failingEnv =
     \<lparr>imagePipeline = TensorError ''shape'',
      predict = (\<lambda>xs. Inl ''shape''),
      duringImagePredict = (\<lambda>s. s), duringProcessDeviceImage = (\<lambda>s. s),
      duringTrafficPredict = (\<lambda>s. s), duringDetectTrafficAnomaly = (\<lambda>s. s)\<rparr>"


definition stoppingEnv :: env where
  "stoppingEnv = calmEnv\<lparr>duringDetectTrafficAnomaly := stopMonitoring\<rparr>"


definition sample90 :: "real list" where
  "sample90 = [40, 41, 90, 38, 35, 44, 39, 40, 42, 36]"

definition sample75 :: "real list" where
  "sample75 = [40, 41, 75, 38, 35, 44, 39, 40, 42, 36]"

definition sample50 :: "real list" where
  "sample50 = [40, 41, 50, 38, 35, 44, 39, 40, 42, 36]"

section \<open>The log buffer\<close>

lemma addLog_logs:
  "logs (addLog m t s) =
     (if length (logs s) \<ge> 100
      then \<lparr>message = Stamped (now s) m, type = t\<rparr> # butlast (logs s)
      else \<lparr>message = Stamped (now s) m, type = t\<rparr> # logs s)"
  by (simp add: addLog_def Let_def)

text \<open>
  Claim C3. The log buffer never holds more than 100 entries. A buffer of at most 100
  entries has at most 100 after an insertion; the inserted entry is first and the
  earlier entries follow it in their order (newest first); when the buffer was full,
  exactly its last entry, the oldest, is dropped. Hence any sequence of insertions
  keeps the bound (the only other assignment to \<open>logs\<close> is the empty list of
  \<^verbatim>\<open>resetSystem\<close>).
\<close>

theorem addLog_capacity:
  "length (logs s) \<le> 100 \<Longrightarrow>
     length (logs (addLog m t s)) \<le> 100 \<and>
     logs (addLog m t s) =
       \<lparr>message = Stamped (now s) m, type = t\<rparr> #
         (if length (logs s) = 100 then butlast (logs s) else logs s) \<and>
     length (logs (foldl (\<lambda>s' (m', t'). addLog m' t' s') s ins)) \<le> 100"
proof (induction ins arbitrary: s)
  case Nil
  then show ?case by (simp add: addLog_logs)
next
  case (Cons a ins)
  obtain m' t' where a: "a = (m', t')" by (cases a)
  have "length (logs (addLog m' t' s)) \<le> 100"
    using Cons.prems by (simp add: addLog_logs)
  from Cons.IH [OF this] Cons.prems show ?case
    by (simp add: a addLog_logs)
qed

theorem addLog_capacity_witness:
  "length (logs fullLogState) = 100 \<and>
   length (logs (addLog MsgStopped warning fullLogState)) \<le> 100 \<and>
   logs (addLog MsgStopped warning fullLogState) =
     \<lparr>message = Stamped 7 MsgStopped, type = warning\<rparr> #
       replicate 99 \<lparr>message = Stamped 1 MsgStart, type = info\<rparr> \<and>
   length (logs (foldl (\<lambda>s' (m', t'). addLog m' t' s') fullLogState
                  [(MsgStart, info), (MsgNotReady, danger)])) \<le> 100"
proof -
  have h: "length (logs fullLogState) \<le> 100"
    by (simp add: fullLogState_def)
  have b: "butlast (replicate 100 \<lparr>message = Stamped 1 MsgStart, type = info\<rparr>) =
           replicate 99 \<lparr>message = Stamped 1 MsgStart, type = info\<rparr>"
    by (simp add: butlast_conv_take)
  show ?thesis
    using addLog_capacity [OF h, of MsgStopped warning "[(MsgStart, info), (MsgNotReady, danger)]"] b
    by (simp add: fullLogState_def readyState_def)
qed

section \<open>Reset\<close>

text \<open>
  Claim C1, as the code has it. From every prior state \<^verbatim>\<open>resetSystem\<close> yields
  running = false, device status and traffic status Normal, load progress 0 and
  ready = false; the log buffer is not empty but holds exactly one entry, the Info
  entry that the reset itself logs after clearing the buffer. Both files agree on this;
  they differ in the text of that entry and in the further fields they reset.
\<close>

theorem resetSystem_postcondition:
  "\<not> isMonitoring (resetSystem s) \<and>
   deviceStatus (resetSystem s) = Normal \<and>
   trafficStatus (resetSystem s) = Normal \<and>
   logs (resetSystem s) = [\<lparr>message = Stamped (now s) MsgReset, type = info\<rparr>] \<and>
   modelLoadProgress (resetSystem s) = 0 \<and>
   \<not> modelReady (resetSystem s) \<and>
   \<not> trafficModel (resetSystem s) \<and> \<not> imageModel (resetSystem s) \<and>
   \<not> isMonitoring (resetSystem_index s) \<and>
   deviceStatus (resetSystem_index s) = Normal \<and>
   trafficStatus (resetSystem_index s) = Normal \<and>
   logs (resetSystem_index s) = [\<lparr>message = Stamped (now s) MsgResetCleared, type = info\<rparr>] \<and>
   modelLoadProgress (resetSystem_index s) = 0 \<and>
   \<not> modelReady (resetSystem_index s) \<and>
   \<not> trafficModel (resetSystem_index s) \<and> \<not> imageModel (resetSystem_index s)"
  by (simp add: resetSystem_def resetSystem_index_def stopMonitoring_def addLog_def Let_def)

text \<open>
  Claim C1 as stated fails: after a reset of the ready state the log buffer is not
  empty.
\<close>

theorem resetSystem_log_counterexample:
  "\<not> (logs (resetSystem readyState) = [])"
  by (simp add: resetSystem_def stopMonitoring_def addLog_def Let_def readyState_def)

text \<open>
  Claim C10. \<^verbatim>\<open>resetSystem\<close> of part_000 writes the speed selector: afterwards
  \<open>selectedSpeed\<close> is 2000 whatever it was (a chosen 3000 does not survive), whereas
  \<^verbatim>\<open>resetSystem\<close> of index.js leaves \<open>selectedSpeed\<close> unchanged.
\<close>

theorem resetSystem_selectedSpeed:
  "selectedSpeed (resetSystem s) = 2000 \<and>
   selectedSpeed (resetSystem_index s) = selectedSpeed s \<and>
   selectedSpeed readyState = 3000 \<and>
   selectedSpeed (resetSystem readyState) \<noteq> selectedSpeed readyState \<and>
   selectedSpeed (resetSystem_index readyState) = 3000"
  by (simp add: resetSystem_def resetSystem_index_def stopMonitoring_def addLog_def Let_def
      readyState_def)

section \<open>Traffic classification\<close>

lemma threshold_eq:
  "threshold x hi lo s = (statusOver x hi lo, s\<lparr>trafficStatus := statusOver x hi lo\<rparr>)"
  by (simp add: threshold_def statusOver_def)




lemma detect_fallback:
  assumes "trafficModel s" "modelReady s" "passesCheck (Array xs)"
    and "predict e (map (\<lambda>v. div100 (toNumber v)) xs) = Inl m"
  shows "detectTrafficAnomaly e (Array xs) s =
           threshold (Math_max (map toNumber xs)) 85 70 (addLog (MsgTensorFailed m) warning s)"
  using assms
  by (simp add: detectTrafficAnomaly_def passesCheck_def list_ex_iff list_all_iff Let_def)


lemma foldl_Math_max2_Fin:
  "foldl Math_max2 (Fin a) (map Fin rs) = Fin (foldl max a rs)"
  by (induction rs arbitrary: a) auto

lemma Math_max_Fin:
  "rs \<noteq> [] \<Longrightarrow> Math_max (map Fin rs) = Fin (Max (set rs))"
proof (cases rs)
  case Nil
  assume "rs \<noteq> []" with Nil show ?thesis by simp
next
  case (Cons a as)
  have "Math_max (map Fin rs) = Fin (foldl max a as)"
    by (simp add: Math_max_def Cons foldl_Math_max2_Fin)
  also have "foldl max a as = fold max as a"
    by (simp add: foldl_conv_fold max.commute)
  also have "\<dots> = Max (set rs)"
    using Max.set_eq_fold [of a as] by (simp add: Cons)
  finally show ?thesis .
qed

lemma isFiniteNumber_accepted: "isFiniteNumber v \<Longrightarrow> isNumber v \<and> \<not> isNaN v"
  by (cases v rule: isFiniteNumber.cases) (simp_all add: isNaN_def)

lemma wellFormed_passesCheck: "wellFormed data \<Longrightarrow> passesCheck data"
  by (cases data)
    (auto simp: wellFormed_def passesCheck_def list_all_iff dest: isFiniteNumber_accepted)

lemma passesCheck_sampleOf: "passesCheck (sampleOf rs) = (length rs = 10)"
  by (auto simp: passesCheck_def sampleOf_def list_all_iff isNaN_def)






text \<open>
  Claim C7, as the code has it. In part_000, whenever the tensor pipeline of the primary
  traffic path throws on a sample of 10 finite numbers, \<^verbatim>\<open>detectTrafficAnomaly\<close> logs
  one Warning entry and falls back to the heuristic on the maximum of the sample:
  above 85 Danger, above 70 Warning, else Normal (so 90 gives Danger, 75 Warning and
  50 Normal), and sets the traffic status to that status. In index.js there is no
  heuristic: the failure is logged as one Warning entry and Normal is returned, with
  the traffic status left as it was.
\<close>

theorem detectTrafficAnomaly_fallback:
  assumes "trafficModel s" and "modelReady s" and "length rs = 10"
    and "predict e (map (\<lambda>x. Fin (x / 100)) rs) = Inl m"
  shows "detectTrafficAnomaly e (sampleOf rs) s =
           (heuristic (Max (set rs)),
            (addLog (MsgTensorFailed m) warning s)\<lparr>trafficStatus := heuristic (Max (set rs))\<rparr>) \<and>
         detectTrafficAnomaly_index e (sampleOf rs) s =
           (Normal, addLog (MsgTrafficFailed m) warning s) \<and>
         heuristic 90 = Danger \<and> heuristic 75 = Warning \<and> heuristic 50 = Normal"
proof -
  have ne: "rs \<noteq> []" using assms(3) by auto
  have m: "map (\<lambda>v. div100 (toNumber v)) (map (\<lambda>x. Num (Fin x)) rs) =
           map (\<lambda>x. Fin (x / 100)) rs"
    by simp
  have t: "map toNumber (map (\<lambda>x. Num (Fin x)) rs) = map Fin rs"
    by simp
  have p: "passesCheck (Array (map (\<lambda>x. Num (Fin x)) rs))"
    using passesCheck_sampleOf [of rs] assms(3) by (simp add: sampleOf_def)
  have "detectTrafficAnomaly e (Array (map (\<lambda>x. Num (Fin x)) rs)) s =
          threshold (Math_max (map Fin rs)) 85 70 (addLog (MsgTensorFailed m) warning s)"
    using detect_fallback [OF assms(1,2) p, of e m] assms(4) by (simp only: m t)
  moreover have "statusOver (Fin (Max (set rs))) 85 70 = heuristic (Max (set rs))"
    by (simp add: statusOver_def heuristic_def)
  ultimately have a: "detectTrafficAnomaly e (sampleOf rs) s =
           (heuristic (Max (set rs)),
            (addLog (MsgTensorFailed m) warning s)\<lparr>trafficStatus := heuristic (Max (set rs))\<rparr>)"
    by (simp add: sampleOf_def threshold_eq Math_max_Fin [OF ne])
  have b: "detectTrafficAnomaly_index e (sampleOf rs) s =
           (Normal, addLog (MsgTrafficFailed m) warning s)"
    using assms by (simp add: detectTrafficAnomaly_index_def sampleOf_def o_def)
  show ?thesis using a b by (simp add: heuristic_def)
qed

theorem detectTrafficAnomaly_fallback_witness:
  "Max (set sample90) = 90 \<and> Max (set sample75) = 75 \<and> Max (set sample50) = 50 \<and>
   fst (detectTrafficAnomaly failingEnv (sampleOf sample90) readyState) = Danger \<and>
   fst (detectTrafficAnomaly failingEnv (sampleOf sample75) readyState) = Warning \<and>
   fst (detectTrafficAnomaly failingEnv (sampleOf sample50) readyState) = Normal \<and>
   detectTrafficAnomaly failingEnv (sampleOf sample90) readyState =
     (Danger, readyState\<lparr>trafficStatus := Danger,
        logs := [\<lparr>message = Stamped 7 (MsgTensorFailed ''shape''), type = warning\<rparr>]\<rparr>)"
proof -
  have r: "trafficModel readyState" "modelReady readyState"
    by (simp_all add: readyState_def)
  have l: "length sample90 = 10" "length sample75 = 10" "length sample50 = 10"
    by (simp_all add: sample90_def sample75_def sample50_def)
  have f: "\<And>rs. predict failingEnv (map (\<lambda>x. Fin (x / 100)) rs) = Inl ''shape''"
    by (simp add: failingEnv_def)
  have mx: "Max (set sample90) = 90" "Max (set sample75) = 75" "Max (set sample50) = 50"
    by (simp_all add: sample90_def sample75_def sample50_def)
  show ?thesis
    using detectTrafficAnomaly_fallback [OF r l(1) f]
      detectTrafficAnomaly_fallback [OF r l(2) f]
      detectTrafficAnomaly_fallback [OF r l(3) f]
    by (simp add: mx heuristic_def addLog_def readyState_def)
qed

text \<open>
  Claim C7 as stated fails in index.js: with the models ready and a tensor pipeline
  that throws, a sample whose maximum is 90 is classified Normal, not Danger, and the
  traffic status is not touched.
\<close>

theorem detectTrafficAnomaly_index_counterexample:
  "Max (set sample90) = 90 \<and>
   predict failingEnv (map (\<lambda>x. Fin (x / 100)) sample90) = Inl ''shape'' \<and>
   detectTrafficAnomaly_index failingEnv (sampleOf sample90) readyState =
     (Normal,
      readyState\<lparr>logs := [\<lparr>message = Stamped 7 (MsgTrafficFailed ''shape''), type = warning\<rparr>]\<rparr>)"
  by (simp add: sample90_def failingEnv_def detectTrafficAnomaly_index_def sampleOf_def
      readyState_def addLog_def)

section \<open>Generated traffic\<close>

lemma unitDraws_drawn [simp]: "unitDraws (s\<lparr>drawn := k\<rparr>) = unitDraws s"
  by (simp add: unitDraws_def)







text \<open>When every draw is \<open>1/2\<close> no anomaly is injected and every reading is 37.5.\<close>

lemma generateTrafficData_half:
  "random s = (\<lambda>i. 1 / 2) \<Longrightarrow>
     generateTrafficData s = (replicate 10 (75 / 2), s\<lparr>drawn := drawn s + 21\<rparr>)"
  by (simp add: generateTrafficData_def Math_random_def eval_nat_numeral Let_def)




section \<open>Device classification: the fallback\<close>







section \<open>The scheduler\<close>

lemma keepsSchedulerD: "keepsScheduler h \<Longrightarrow> sched (h s) = sched s"
  by (simp add: keepsScheduler_def sched_def)

lemma sched_addLog [simp]: "sched (addLog m t s) = sched s"
  by (simp add: sched_def addLog_def Let_def)

lemma sched_Math_random [simp]: "sched (snd (Math_random s)) = sched s"
  by (simp add: sched_def Math_random_def)

lemma sched_trafficLoop [simp]: "sched (snd (trafficLoop n base data s)) = sched s"
proof (induction n arbitrary: data s)
  case 0
  then show ?case by simp
next
  case (Suc n)
  show ?case
    by (simp add: Let_def split_def Suc.IH)
qed

lemma sched_generateTrafficData [simp]: "sched (snd (generateTrafficData s)) = sched s"
  by (simp add: generateTrafficData_def Let_def split_def)

lemma sched_threshold [simp]: "sched (snd (threshold x hi lo s)) = sched s"
  by (simp add: threshold_def sched_def)

lemma sched_deviceStatus [simp]: "sched (s\<lparr>deviceStatus := x\<rparr>) = sched s"
  by (simp add: sched_def)

lemma sched_statistics [simp]:
  "sched (s\<lparr>processedDataPoints := n\<rparr>) = sched s"
  "sched (s\<lparr>memoryUsage := x\<rparr>) = sched s"
  "sched (s\<lparr>accuracy := x\<rparr>) = sched s"
  "sched (s\<lparr>anomalyDetectionRate := x\<rparr>) = sched s"
  by (simp_all add: sched_def)

lemma if_both: "P a \<Longrightarrow> P b \<Longrightarrow> P (if c then a else b)"
  by simp

lemma sched_updateStatistics [simp]: "sched (updateStatistics s) = sched s"
  unfolding updateStatistics_def Let_def split_def
  by (rule if_both [where P = "\<lambda>x. sched x = sched s"])
    (simp_all only: sched_statistics sched_Math_random)

lemma sched_randomLog [simp]: "sched (randomLog st s) = sched s"
  by (simp add: randomLog_def Let_def split_def)

lemma sched_detect:
  "keepsScheduler (duringTrafficPredict e) \<Longrightarrow>
     sched (snd (detectTrafficAnomaly e data s)) = sched s"
  by (simp add: detectTrafficAnomaly_def Let_def keepsSchedulerD split: jsdata.split sum.split)

lemma sched_detect_index:
  "keepsScheduler (duringTrafficPredict e) \<Longrightarrow>
     sched (snd (detectTrafficAnomaly_index e data s)) = sched s"
  by (simp add: detectTrafficAnomaly_index_def Let_def keepsSchedulerD
      split: jsdata.split sum.split)

lemma sched_process:
  "keepsScheduler (duringImagePredict e) \<Longrightarrow>
     sched (snd (processDeviceImage e s)) = sched s"
  by (simp add: processDeviceImage_def Let_def split_def keepsSchedulerD
      split: image_outcome.split)

lemma sched_process_index:
  "keepsScheduler (duringImagePredict e) \<Longrightarrow>
     sched (snd (processDeviceImage_index e s)) = sched s"
  by (simp add: processDeviceImage_index_def Let_def split_def keepsSchedulerD
      split: image_outcome.split)

text \<open>The scheduling fields after the tick body are those after its last await.\<close>

lemma sched_tickBody:
  "sched (tickBody e s) =
     sched (duringDetectTrafficAnomaly e
       (snd (detectTrafficAnomaly e
          (Array (map (\<lambda>v. Num (Fin v))
             (fst (generateTrafficData
                (duringProcessDeviceImage e (snd (processDeviceImage e s)))))))
          (snd (generateTrafficData
             (duringProcessDeviceImage e (snd (processDeviceImage e s))))))))"
  by (simp add: tickBody_def Let_def split_def)

lemma sched_tickBody_index:
  "sched (tickBody_index e s) =
     sched (duringDetectTrafficAnomaly e
       (snd (detectTrafficAnomaly_index e
          (Array (map (\<lambda>v. Num (Fin v))
             (fst (generateTrafficData
                (duringProcessDeviceImage e
                   (snd (processDeviceImage_index e
                      (s\<lparr>processedDataPoints := processedDataPoints s + 1\<rparr>))))))))
          (snd (generateTrafficData
             (duringProcessDeviceImage e
                (snd (processDeviceImage_index e
                   (s\<lparr>processedDataPoints := processedDataPoints s + 1\<rparr>)))))))))"
  by (simp add: tickBody_index_def Let_def split_def)

lemma sched_tickBody_quiet: "quiet e \<Longrightarrow> sched (tickBody e s) = sched s"
  by (simp add: sched_tickBody quiet_def keepsSchedulerD sched_detect sched_process)

lemma sched_tickBody_index_quiet: "quiet e \<Longrightarrow> sched (tickBody_index e s) = sched s"
  by (simp add: sched_tickBody_index quiet_def keepsSchedulerD sched_detect_index
      sched_process_index)

lemma tickBody_stopped:
  assumes "stopsAtLastAwait e"
  shows "\<not> isMonitoring (tickBody e s) \<and> timers (tickBody e s) = timers s"
proof -
  let ?s2 = "duringProcessDeviceImage e (snd (processDeviceImage e s))"
  let ?gen = "generateTrafficData ?s2"
  let ?det = "detectTrafficAnomaly e (Array (map (\<lambda>v. Num (Fin v)) (fst ?gen))) (snd ?gen)"
  have k: "keepsScheduler (duringImagePredict e)" "keepsScheduler (duringProcessDeviceImage e)"
    "keepsScheduler (duringTrafficPredict e)"
    using assms by (simp_all add: stopsAtLastAwait_def)
  have "sched (snd ?det) = sched s"
    by (simp add: sched_detect [OF k(3)] keepsSchedulerD [OF k(2)] sched_process [OF k(1)])
  then have t: "timers (snd ?det) = timers s"
    by (simp add: sched_def)
  have l: "\<not> isMonitoring (duringDetectTrafficAnomaly e (snd ?det))"
    "timers (duringDetectTrafficAnomaly e (snd ?det)) = timers (snd ?det)"
    using assms by (simp_all add: stopsAtLastAwait_def)
  have "sched (tickBody e s) = sched (duringDetectTrafficAnomaly e (snd ?det))"
    by (rule sched_tickBody)
  then show ?thesis
    using l t by (simp add: sched_def)
qed

lemma monitoring_quiet:
  assumes "quiet e" "isMonitoring s"
  shows "sched (monitoringTask e s) =
           (True, ticksRun s + 1, timers s @ [selectedSpeed s], selectedSpeed s)"
    and "sched (monitoringTask_index e s) =
           (True, ticksRun s + 1, timers s @ [selectedSpeed s], selectedSpeed s)"
proof -
  have "sched (tickBody e (s\<lparr>ticksRun := ticksRun s + 1\<rparr>)) =
        sched (s\<lparr>ticksRun := ticksRun s + 1\<rparr>)"
    by (rule sched_tickBody_quiet [OF assms(1)])
  then show "sched (monitoringTask e s) =
           (True, ticksRun s + 1, timers s @ [selectedSpeed s], selectedSpeed s)"
    using assms(2) by (simp add: monitoringTask_def reschedule_def sched_def)
  have "sched (tickBody_index e (s\<lparr>ticksRun := ticksRun s + 1\<rparr>)) =
        sched (s\<lparr>ticksRun := ticksRun s + 1\<rparr>)"
    by (rule sched_tickBody_index_quiet [OF assms(1)])
  then show "sched (monitoringTask_index e s) =
           (True, ticksRun s + 1, timers s @ [selectedSpeed s], selectedSpeed s)"
    using assms(2) by (simp add: monitoringTask_index_def reschedule_def sched_def)
qed



text \<open>
  Claim C5. \<^verbatim>\<open>stopMonitoring\<close> leaves running = false and sets no timer. A tick that
  starts while running = false returns at once: the state is unchanged, so nothing is
  classified, logged or scheduled. The rescheduling check of a tick in flight sets no
  timer when it finds running = false; in particular, when monitoring is stopped while
  the tick awaits the traffic classifier (and nothing else touches the scheduler), the
  tick finishes its body, ends with running = false and leaves the pending timers as
  they were when it started: no follow-up is scheduled.
\<close>

theorem stop_ends_scheduling:
  "\<not> isMonitoring (stopMonitoring s) \<and>
   timers (stopMonitoring s) = timers s \<and>
   (\<not> isMonitoring s \<longrightarrow> monitoringTask e s = s \<and> reschedule s = s) \<and>
   (isMonitoring s \<and> stopsAtLastAwait e \<longrightarrow>
      monitoringTask e s = tickBody e (s\<lparr>ticksRun := ticksRun s + 1\<rparr>) \<and>
      \<not> isMonitoring (monitoringTask e s) \<and>
      timers (monitoringTask e s) = timers s)"
proof (intro conjI impI)
  assume a: "isMonitoring s \<and> stopsAtLastAwait e"
  have t: "\<not> isMonitoring (tickBody e (s\<lparr>ticksRun := ticksRun s + 1\<rparr>))"
    "timers (tickBody e (s\<lparr>ticksRun := ticksRun s + 1\<rparr>)) = timers s"
    using tickBody_stopped [of e "s\<lparr>ticksRun := ticksRun s + 1\<rparr>"] a by simp_all
  show e: "monitoringTask e s = tickBody e (s\<lparr>ticksRun := ticksRun s + 1\<rparr>)"
    using a t by (simp add: monitoringTask_def reschedule_def)
  show "\<not> isMonitoring (monitoringTask e s)" "timers (monitoringTask e s) = timers s"
    using t by (simp_all add: e)
qed (simp_all add: stopMonitoring_def addLog_def Let_def monitoringTask_def reschedule_def)

theorem stop_ends_scheduling_witness:
  "\<not> isMonitoring (stopMonitoring runningState) \<and>
   monitoringTask calmEnv (stopMonitoring runningState) = stopMonitoring runningState \<and>
   reschedule (stopMonitoring runningState) = stopMonitoring runningState \<and>
   isMonitoring runningState \<and> stopsAtLastAwait stoppingEnv \<and>
   \<not> isMonitoring (monitoringTask stoppingEnv runningState) \<and>
   timers (monitoringTask stoppingEnv runningState) = [] \<and>
   timers (monitoringTask calmEnv runningState) = [3000] \<and>
   monitoringTask stoppingEnv runningState =
     runningState\<lparr>isMonitoring := False, deviceStatus := Warning, trafficStatus := Warning,
       logs := [\<lparr>message = Stamped 7 MsgStopped, type = info\<rparr>],
       drawn := 22, ticksRun := 1\<rparr>"
proof -
  have s: "\<not> isMonitoring (stopMonitoring runningState)"
    by (simp add: stopMonitoring_def addLog_def Let_def)
  have r: "isMonitoring runningState" "timers runningState = []"
    "selectedSpeed runningState = 3000"
    by (simp_all add: runningState_def readyState_def)
  have k: "keepsScheduler (\<lambda>s. s)"
    by (simp add: keepsScheduler_def)
  have st: "stopsAtLastAwait stoppingEnv"
    using k by (simp add: stopsAtLastAwait_def stoppingEnv_def calmEnv_def stopMonitoring_def
        addLog_def Let_def)
  have q: "quiet calmEnv"
    using k by (simp add: quiet_def calmEnv_def)
  have c: "timers (monitoringTask calmEnv runningState) = [3000]"
    using monitoring_quiet(1) [OF q r(1)] r by (simp add: sched_def)
  have a: "monitoringTask calmEnv (stopMonitoring runningState) = stopMonitoring runningState \<and>
           reschedule (stopMonitoring runningState) = stopMonitoring runningState"
    using stop_ends_scheduling [of "stopMonitoring runningState" calmEnv] s by blast
  have b: "\<not> isMonitoring (monitoringTask stoppingEnv runningState) \<and>
           timers (monitoringTask stoppingEnv runningState) = timers runningState"
    using stop_ends_scheduling [of runningState stoppingEnv] r(1) st by blast
  have d: "monitoringTask stoppingEnv runningState =
     runningState\<lparr>isMonitoring := False, deviceStatus := Warning, trafficStatus := Warning,
       logs := [\<lparr>message = Stamped 7 MsgStopped, type = info\<rparr>],
       drawn := 22, ticksRun := 1\<rparr>"
    by (simp add: monitoringTask_def reschedule_def tickBody_def stopMonitoring_def
        processDeviceImage_def detectTrafficAnomaly_def generateTrafficData_half randomLog_def
        Math_random_def addLog_def threshold_def stoppingEnv_def calmEnv_def runningState_def
        readyState_def Let_def Math_max_def statusAt_def isNaN_def list_ex_iff)
  show ?thesis
    using a b s r(1) st c d by (simp add: r(2))
qed

end
